theory Spec2Isabelle
  imports Main "HOL-Library.Sublist"
begin

section \<open>JavaScript values\<close>

text \<open>
  The service is written in JavaScript: the fields of an event payload, the user
  identifiers that key the notification map and the answers of the remote services are
  untyped values.

  A payload is a flat object: its fields, and so the user identifiers taken from it,
  are primitive values. Numbers are restricted to integers (rendered in decimal, which
  is what JavaScript does for integers of magnitude below \<open>10^21\<close>). On primitive
  values the key comparison of a JavaScript \<open>Map\<close> is equality.

  The body of an HTTP response is any JSON value. An object is the list of its fields,
  looked up with \<open>map_of\<close>. Strings are byte strings; the three non-ASCII characters
  of the source's literals are written as their UTF-8 bytes.
\<close>

datatype prim =
    JUndefined
  | JNull
  | JBool bool
  | JNum int
  | JStr string

datatype jsval =
    Prim prim
  | Arr "jsval list"
  | Obj "(string \<times> jsval) list"

text \<open>A flat object: field names with primitive values.\<close>

type_synonym fields = "(string \<times> prim) list"

text \<open>Truthiness, as tested by \<open>!x\<close>, \<open>x ? a : b\<close> and \<open>x || y\<close>.\<close>

fun ptruthy :: "prim \<Rightarrow> bool" where
  "ptruthy JUndefined = False"
| "ptruthy JNull = False"
| "ptruthy (JBool b) = b"
| "ptruthy (JNum n) = (n \<noteq> 0)"
| "ptruthy (JStr s) = (s \<noteq> [])"

fun truthy :: "jsval \<Rightarrow> bool" where
  "truthy (Prim p) = ptruthy p"
| "truthy (Arr xs) = True"
| "truthy (Obj fs) = True"

text \<open>The operator \<open>a || b\<close>, on primitive values and on any values.\<close>

definition p_or :: "prim \<Rightarrow> prim \<Rightarrow> prim" where
  "p_or a b = (if ptruthy a then a else b)"

definition js_or :: "jsval \<Rightarrow> jsval \<Rightarrow> jsval" where
  "js_or a b = (if truthy a then a else b)"

text \<open>
  Property access \<open>v.name\<close> on a value that is neither \<open>undefined\<close> nor \<open>null\<close>
  (the source guards every such access by a truthiness test). The names read by the
  source (\<open>email\<close>, \<open>first_name\<close>, \<open>name\<close>, \<open>data\<close>) are no built-in properties of
  strings, numbers, booleans or arrays, so these yield \<open>undefined\<close>.
\<close>

fun get_prop :: "jsval \<Rightarrow> string \<Rightarrow> jsval" where
  "get_prop (Obj fs) name = (case map_of fs name of None \<Rightarrow> Prim JUndefined | Some v \<Rightarrow> v)"
| "get_prop v name = Prim JUndefined"

text \<open>Decimal rendering of a number, \<open>Number.prototype.toString\<close> on integers.\<close>

definition digit_char :: "nat \<Rightarrow> char" where
  "digit_char d = ''0123456789'' ! d"

fun decimal :: "nat \<Rightarrow> string" where
  "decimal n = (if n < 10 then [digit_char n] else decimal (n div 10) @ [digit_char (n mod 10)])"

declare decimal.simps [simp del]

definition num_toString :: "int \<Rightarrow> string" where
  "num_toString i = (if i < 0 then CHR ''-'' # decimal (nat (- i)) else decimal (nat i))"

text \<open>Joining strings with a separator, \<open>Array.prototype.join\<close>.\<close>

fun join :: "string \<Rightarrow> string list \<Rightarrow> string" where
  "join sep [] = []"
| "join sep [x] = x"
| "join sep (x # y # ys) = x @ sep @ join sep (y # ys)"

text \<open>
  String conversion as performed by a template literal \<open>`${v}`\<close>. A primitive value
  always converts.
\<close>

fun ptpl :: "prim \<Rightarrow> string" where
  "ptpl JUndefined = ''undefined''"
| "ptpl JNull = ''null''"
| "ptpl (JBool b) = (if b then ''true'' else ''false'')"
| "ptpl (JNum n) = num_toString n"
| "ptpl (JStr s) = s"

text \<open>
  The conversion of an array or object goes through its \<open>toString\<close> method and can
  throw a TypeError: \<open>None\<close>. A parsed JSON object inherits \<open>toString\<close>, which yields
  \<open>[object Object]\<close>, unless it has a field of that name: a JSON value is not callable,
  so the field is skipped, \<open>valueOf\<close> yields no primitive value either, and the
  conversion throws. An array is joined with commas, \<open>null\<close> and \<open>undefined\<close>
  elements rendering as the empty string; it throws when the conversion of an element
  throws.
\<close>

fun tpl :: "jsval \<Rightarrow> string option" where
  "tpl (Prim p) = Some (ptpl p)"
| "tpl (Arr xs) =
     map_option (join '','')
       (those (map (\<lambda>x. if x = Prim JUndefined \<or> x = Prim JNull then Some [] else tpl x) xs))"
| "tpl (Obj fs) = (if map_of fs ''toString'' = None then Some ''[object Object]'' else None)"

datatype js_error = TypeError

section \<open>Contact resolver (src/utils/httpClient.js)\<close>

text \<open>
  The three HTTP clients are the environment. A GET either throws (timeout, connection
  failure, status outside 2xx) or yields a response whose \<open>data\<close> is the parsed body.
\<close>

datatype http_result = HttpError | HttpOk jsval

record services =
  userServiceClient :: "string \<Rightarrow> http_result"
  trainingServiceClient :: "string \<Rightarrow> http_result"
  scheduleServiceClient :: "string \<Rightarrow> http_result"

text \<open>
  \<open>return response.data.data\<close> inside \<open>try\<close>; the \<open>catch\<close> returns \<open>null\<close>. Reading
  \<open>.data\<close> of an \<open>undefined\<close> or \<open>null\<close> body throws a TypeError, which the same
  \<open>catch\<close> turns into \<open>null\<close>.
\<close>

definition response_data_data :: "http_result \<Rightarrow> jsval" where
  "response_data_data r =
     (case r of
        HttpError \<Rightarrow> Prim JNull
      | HttpOk body \<Rightarrow>
          (if body = Prim JUndefined \<or> body = Prim JNull then Prim JNull
           else get_prop body ''data''))"

definition getUserContact :: "services \<Rightarrow> prim \<Rightarrow> jsval" where
  "getUserContact svc userId =
     response_data_data (userServiceClient svc (''/api/users/'' @ ptpl userId))"

definition getProgramDetails :: "services \<Rightarrow> prim \<Rightarrow> jsval" where
  "getProgramDetails svc programId =
     response_data_data (trainingServiceClient svc (''/api/programs/'' @ ptpl programId))"

definition getBookingDetails :: "services \<Rightarrow> prim \<Rightarrow> jsval" where
  "getBookingDetails svc bookingId =
     response_data_data (scheduleServiceClient svc (''/api/bookings/'' @ ptpl bookingId))"

section \<open>Notification store (src/index.js)\<close>

text \<open>
  A stored notification. \<open>read_at\<close> is \<open>null\<close> (\<open>None\<close>) or a \<open>Date\<close>, and
  \<open>created_at\<close> is a \<open>Date\<close>; a \<open>Date\<close> is its number of milliseconds since the
  epoch. The draft is the object literal a handler passes to \<open>storeNotification\<close>:
  all seven call sites pass exactly the five keys below, so the spread
  \<open>...notification\<close> never overrides \<open>id\<close>. The metadata is an object literal of
  payload fields or the payload itself.
\<close>

record draft =
  d_type :: string
  d_category :: string
  d_title :: string
  d_message :: string
  d_metadata :: fields

record notification =
  n_id :: string
  n_type :: string
  n_category :: string
  n_title :: string
  n_message :: string
  n_metadata :: fields
  read_at :: "int option"
  created_at :: int

text \<open>
  A mail handed to the mocked \<open>sendEmail\<close>. The recipient is whatever value the
  handler passes (\<open>client.email\<close> may be anything).
\<close>

record email =
  e_to :: jsval
  e_subject :: string
  e_body :: string

text \<open>
  The process state: the module-level \<open>notifications\<close> map, keyed by the user
  identifier, and the mails passed to \<open>sendEmail\<close> so far, oldest first. Logger calls
  are not part of the state.
\<close>

record state =
  notifications :: "prim \<rightharpoonup> notification list"
  sent :: "email list"

text \<open>
  The mock logs \<open>`[MOCK EMAIL] To: ${to}, Subject: ${subject}`\<close> and the body, and
  returns \<open>true\<close>. The first log line converts the recipient to a string; when that
  throws, nothing has been logged and the call fails.
\<close>

definition sendEmail :: "jsval \<Rightarrow> string \<Rightarrow> string \<Rightarrow> state \<Rightarrow> js_error + state" where
  "sendEmail to subject body s =
     (case tpl to of
        None \<Rightarrow> Inl TypeError
      | Some rendered \<Rightarrow>
          Inr (s\<lparr>sent := sent s @ [\<lparr>e_to = to, e_subject = subject, e_body = body\<rparr>]\<rparr>))"

text \<open>
  \<open>storeNotification\<close> reads the clock twice: \<open>Date.now()\<close> for the id and
  \<open>new Date()\<close> for \<open>created_at\<close>. Both readings are parameters.
\<close>

definition new_notification :: "draft \<Rightarrow> int \<Rightarrow> int \<Rightarrow> notification" where
  "new_notification d date_now new_date =
     \<lparr>n_id = num_toString date_now,
      n_type = d_type d, n_category = d_category d, n_title = d_title d,
      n_message = d_message d, n_metadata = d_metadata d,
      read_at = None, created_at = new_date\<rparr>"

definition storeNotification :: "prim \<Rightarrow> draft \<Rightarrow> int \<Rightarrow> int \<Rightarrow> state \<Rightarrow> state" where
  "storeNotification userId d date_now new_date s =
     (let m = (if notifications s userId = None then (notifications s)(userId \<mapsto> [])
               else notifications s)
      in s\<lparr>notifications :=
             m(userId \<mapsto> the (m userId) @ [new_notification d date_now new_date])\<rparr>)"

text \<open>\<open>notifications.get(userId) || []\<close>: an array is truthy, also when empty.\<close>

definition user_list :: "state \<Rightarrow> prim \<Rightarrow> notification list" where
  "user_list s userId = (case notifications s userId of None \<Rightarrow> [] | Some l \<Rightarrow> l)"

section \<open>Event handlers (src/index.js)\<close>

text \<open>
  A handler receives the event payload, a flat object, as the list of its fields;
  destructuring \<open>const { a, b } = data\<close> reads each field, \<open>undefined\<close> when absent.
  Each handler is modelled as one atomic step on the state: its only accesses to the
  state are the call of \<open>sendEmail\<close> and, after it, the call of \<open>storeNotification\<close>.

  A handler is an \<open>async\<close> function: it returns (\<open>Inr\<close>, with the state it leaves) or
  it throws (\<open>Inl\<close>), which happens when a template literal cannot convert a value of
  the resolved contact or program, in the handler or in \<open>sendEmail\<close>. A throw comes
  before \<open>storeNotification\<close>, so nothing is stored then. The arguments of a call are
  evaluated before the call, so a mail body that throws prevents the call of
  \<open>sendEmail\<close>.
\<close>

type_synonym payload = fields

definition field :: "payload \<Rightarrow> string \<Rightarrow> prim" where
  "field data name = (case map_of data name of None \<Rightarrow> JUndefined | Some v \<Rightarrow> v)"

abbreviation nl :: string where
  "nl \<equiv> [CHR 0x0A]"

definition handleBookingCreated :: "payload \<Rightarrow> int \<Rightarrow> int \<Rightarrow> state \<Rightarrow> js_error + state" where
  "handleBookingCreated data date_now new_date s =
     (let booking_id = field data ''booking_id'';
          client_id = field data ''client_id'';
          booking_date = field data ''booking_date'';
          start_time = field data ''start_time''
      in case sendEmail (Prim (JStr (''client-'' @ ptpl client_id @ ''@fitsync.com'')))
                ''Booking Confirmation''
                (''Your booking for '' @ ptpl booking_date @ '' at '' @ ptpl start_time
                   @ '' has been confirmed. Booking ID: '' @ ptpl booking_id) s of
           Inl e \<Rightarrow> Inl e
         | Inr s1 \<Rightarrow>
             Inr (storeNotification client_id
               \<lparr>d_type = ''booking_confirmation'',
                d_category = ''booking_confirmation'',
                d_title = ''Booking Confirmed'',
                d_message = ''Your session on '' @ ptpl booking_date @ '' at ''
                              @ ptpl start_time @ '' has been booked successfully.'',
                d_metadata = [(''booking_id'', booking_id), (''booking_date'', booking_date),
                              (''start_time'', start_time)]\<rparr>
               date_now new_date s1))"

definition handleBookingCancelled :: "payload \<Rightarrow> int \<Rightarrow> int \<Rightarrow> state \<Rightarrow> js_error + state" where
  "handleBookingCancelled data date_now new_date s =
     (let booking_id = field data ''booking_id'';
          client_id = field data ''client_id'';
          reason = field data ''reason''
      in case sendEmail (Prim (JStr (''client-'' @ ptpl client_id @ ''@fitsync.com'')))
                ''Booking Cancelled''
                (''Your booking has been cancelled. ''
                   @ (if ptruthy reason then ''Reason: '' @ ptpl reason else [])) s of
           Inl e \<Rightarrow> Inl e
         | Inr s1 \<Rightarrow>
             Inr (storeNotification client_id
               \<lparr>d_type = ''booking_cancellation'',
                d_category = ''booking_reminder'',
                d_title = ''Booking Cancelled'',
                d_message = ''Your booking has been cancelled. ''
                              @ ptpl (p_or reason (JStr [])),
                d_metadata = [(''booking_id'', booking_id)]\<rparr>
               date_now new_date s1))"

definition handleProgramAssigned ::
  "payload \<Rightarrow> services \<Rightarrow> int \<Rightarrow> int \<Rightarrow> state \<Rightarrow> js_error + state" where
  "handleProgramAssigned data svc date_now new_date s =
     (let program_id = field data ''program_id'';
          client_id = field data ''client_id'';
          workout_plan_id = field data ''workout_plan_id'';
          diet_plan_id = field data ''diet_plan_id'';
          client = getUserContact svc client_id
      in if \<not> truthy client then Inr s
         else
           let program = getProgramDetails svc program_id;
               programName =
                 (if truthy program
                  then js_or (get_prop program ''name'') (Prim (JStr ''Training Program''))
                  else Prim (JStr ''Training Program''))
           in case tpl (get_prop client ''first_name'') of
                None \<Rightarrow> Inl TypeError
              | Some first_name \<Rightarrow>
                  (case tpl programName of
                     None \<Rightarrow> Inl TypeError
                   | Some name \<Rightarrow>
                       (case sendEmail (get_prop client ''email'')
                               ''New Training Program Assigned''
                               (''Hi '' @ first_name @ '','' @ nl @ nl
                                  @ ''Your trainer has assigned you a new program: '' @ name
                                  @ nl @ nl
                                  @ ''Log in to view your program details and get started!'') s of
                          Inl e \<Rightarrow> Inl e
                        | Inr s1 \<Rightarrow>
                            Inr (storeNotification client_id
                              \<lparr>d_type = ''program_assigned'',
                               d_category = ''program_assigned'',
                               d_title = ''New Program Assigned'',
                               d_message = ''Your trainer assigned you: '' @ name,
                               d_metadata = [(''program_id'', program_id),
                                             (''workout_plan_id'', workout_plan_id),
                                             (''diet_plan_id'', diet_plan_id)]\<rparr>
                              date_now new_date s1))))"

definition handleAchievementEarned ::
  "payload \<Rightarrow> services \<Rightarrow> int \<Rightarrow> int \<Rightarrow> state \<Rightarrow> js_error + state" where
  "handleAchievementEarned data svc date_now new_date s =
     (let achievement_id = field data ''achievement_id'';
          client_id = field data ''client_id'';
          type = field data ''type'';
          title = field data ''title'';
          description = field data ''description'';
          client = getUserContact svc client_id
      in if \<not> truthy client then Inr s
         else
           case tpl (get_prop client ''first_name'') of
             None \<Rightarrow> Inl TypeError
           | Some first_name \<Rightarrow>
               (case sendEmail (get_prop client ''email'')
                       ([CHR 0xF0, CHR 0x9F, CHR 0x8E, CHR 0x89] @ '' Achievement Unlocked!'')
                       (''Congratulations '' @ first_name @ ''!'' @ nl @ nl
                          @ ''You've earned a new achievement: '' @ ptpl title @ nl @ nl
                          @ ptpl (p_or description (JStr [])) @ nl @ nl
                          @ ''Keep up the great work!'') s of
                  Inl e \<Rightarrow> Inl e
                | Inr s1 \<Rightarrow>
                    Inr (storeNotification client_id
                      \<lparr>d_type = ''achievement'',
                       d_category = ''achievement'',
                       d_title = ''Achievement Unlocked!'',
                       d_message = ''Congratulations! You've earned: '' @ ptpl title,
                       d_metadata = [(''achievement_id'', achievement_id), (''type'', type)]\<rparr>
                      date_now new_date s1)))"

definition handleProgramCompleted ::
  "payload \<Rightarrow> services \<Rightarrow> int \<Rightarrow> int \<Rightarrow> state \<Rightarrow> js_error + state" where
  "handleProgramCompleted data svc date_now new_date s =
     (let program_id = field data ''program_id'';
          client_id = field data ''client_id'';
          client = getUserContact svc client_id
      in if \<not> truthy client then Inr s
         else
           case tpl (get_prop client ''first_name'') of
             None \<Rightarrow> Inl TypeError
           | Some first_name \<Rightarrow>
               (case sendEmail (get_prop client ''email'')
                       ''Program Completed!''
                       (''Congratulations '' @ first_name @ ''!'' @ nl @ nl
                          @ ''You've successfully completed your training program!'' @ nl @ nl
                          @ ''Great work on finishing your program. Keep up the momentum!'') s of
                  Inl e \<Rightarrow> Inl e
                | Inr s1 \<Rightarrow>
                    Inr (storeNotification client_id
                      \<lparr>d_type = ''program_completed'',
                       d_category = ''program_assigned'',
                       d_title = ''Program Completed!'',
                       d_message = ''Congratulations on completing your training program!'',
                       d_metadata = [(''program_id'', program_id)]\<rparr>
                      date_now new_date s1)))"

definition handleBookingCompleted ::
  "payload \<Rightarrow> services \<Rightarrow> int \<Rightarrow> int \<Rightarrow> state \<Rightarrow> js_error + state" where
  "handleBookingCompleted data svc date_now new_date s =
     (let booking_id = field data ''booking_id'';
          client_id = field data ''client_id'';
          workout_date = field data ''workout_date'';
          client = getUserContact svc client_id
      in if \<not> truthy client then Inr s
         else
           case tpl (get_prop client ''first_name'') of
             None \<Rightarrow> Inl TypeError
           | Some first_name \<Rightarrow>
               (case sendEmail (get_prop client ''email'')
                       ''Session Completed''
                       (''Hi '' @ first_name @ '','' @ nl @ nl
                          @ ''Your training session on '' @ ptpl workout_date
                          @ '' has been marked as complete.'' @ nl @ nl
                          @ ''You can now log your workout details and track your progress!'') s of
                  Inl e \<Rightarrow> Inl e
                | Inr s1 \<Rightarrow>
                    Inr (storeNotification client_id
                      \<lparr>d_type = ''booking_completed'',
                       d_category = ''booking_confirmation'',
                       d_title = ''Session Completed'',
                       d_message = ''Your training session on '' @ ptpl workout_date
                                     @ '' is complete. Log your workout!'',
                       d_metadata = [(''booking_id'', booking_id)]\<rparr>
                      date_now new_date s1)))"

definition handleMilestoneReached ::
  "payload \<Rightarrow> services \<Rightarrow> int \<Rightarrow> int \<Rightarrow> state \<Rightarrow> js_error + state" where
  "handleMilestoneReached data svc date_now new_date s =
     (let client_id = field data ''client_id'';
          milestone_type = field data ''milestone_type'';
          achieved_value = field data ''achieved_value'';
          previous_value = field data ''previous_value'';
          client = getUserContact svc client_id
      in if \<not> truthy client then Inr s
         else
           case tpl (get_prop client ''first_name'') of
             None \<Rightarrow> Inl TypeError
           | Some first_name \<Rightarrow>
               (case sendEmail (get_prop client ''email'')
                       ([CHR 0xF0, CHR 0x9F, CHR 0x8E, CHR 0xAF] @ '' Milestone Achieved!'')
                       (''Congratulations '' @ first_name @ ''!'' @ nl @ nl
                          @ ''You've reached a new milestone:'' @ nl
                          @ ptpl milestone_type @ '': '' @ ptpl achieved_value @ nl @ nl
                          @ ''Progress from: '' @ ptpl previous_value
                          @ '' '' @ [CHR 0xE2, CHR 0x86, CHR 0x92] @ '' '' @ ptpl achieved_value
                          @ nl @ nl @ ''Keep up the amazing work!'') s of
                  Inl e \<Rightarrow> Inl e
                | Inr s1 \<Rightarrow>
                    Inr (storeNotification client_id
                      \<lparr>d_type = ''milestone'',
                       d_category = ''achievement'',
                       d_title = ''Milestone Achieved!'',
                       d_message = ''You've reached: '' @ ptpl milestone_type,
                       d_metadata = data\<rparr>
                      date_now new_date s1)))"

text \<open>
  The subscriptions of \<open>startServer\<close>: the channel name selects the handler; a message
  on any other channel has no listener.
\<close>

definition dispatch ::
  "string \<Rightarrow> payload \<Rightarrow> services \<Rightarrow> int \<Rightarrow> int \<Rightarrow> state \<Rightarrow> js_error + state" where
  "dispatch channel data svc date_now new_date s =
     (if channel = ''booking.created'' then handleBookingCreated data date_now new_date s
      else if channel = ''booking.cancelled'' then handleBookingCancelled data date_now new_date s
      else if channel = ''booking.completed'' then handleBookingCompleted data svc date_now new_date s
      else if channel = ''program.assigned'' then handleProgramAssigned data svc date_now new_date s
      else if channel = ''program.completed'' then handleProgramCompleted data svc date_now new_date s
      else if channel = ''achievement.earned'' then handleAchievementEarned data svc date_now new_date s
      else if channel = ''milestone.reached'' then handleMilestoneReached data svc date_now new_date s
      else Inr s)"

section \<open>Notification API (src/index.js)\<close>

text \<open>
  The routes read \<open>req.query.user_id\<close>, which is \<open>undefined\<close> or a string (a
  repeated parameter, which the framework parses to an array, is not modelled), and the
  route parameter \<open>id\<close>, a string.

  A response is its status code and its JSON body. \<open>Err code message\<close> is
  \<open>{ success: false, error: { code, message } }\<close>; the other bodies carry
  \<open>success: true\<close> with \<open>data\<close> or \<open>message\<close>.
\<close>

datatype body =
    DataList "notification list"
  | DataOne notification
  | DataCount nat
  | Message string
  | Err string string

type_synonym response = "nat \<times> body"

definition missing_user_id :: response where
  "missing_user_id = (400, Err ''MISSING_USER_ID'' ''user_id query parameter required'')"

definition not_found :: response where
  "not_found = (404, Err ''NOT_FOUND'' ''Notification not found'')"

text \<open>\<open>Array.prototype.findIndex\<close>, with \<open>None\<close> for the result \<open>-1\<close>.\<close>

fun findIndex :: "('a \<Rightarrow> bool) \<Rightarrow> 'a list \<Rightarrow> nat option" where
  "findIndex P [] = None"
| "findIndex P (x # xs) =
     (if P x then Some 0 else (case findIndex P xs of None \<Rightarrow> None | Some i \<Rightarrow> Some (Suc i)))"

text \<open>\<open>xs.splice(index, 1)\<close>: the array without its element at \<open>index\<close>.\<close>

definition splice1 :: "nat \<Rightarrow> 'a list \<Rightarrow> 'a list" where
  "splice1 index xs = take index xs @ drop (Suc index) xs"

text \<open>
  \<open>find\<close> returns the first element that satisfies the predicate, the object itself:
  an assignment to a field of it changes that element of the array. \<open>assign_first\<close>
  is the array after such an assignment.
\<close>

fun assign_first :: "('a \<Rightarrow> bool) \<Rightarrow> ('a \<Rightarrow> 'a) \<Rightarrow> 'a list \<Rightarrow> 'a list" where
  "assign_first P f [] = []"
| "assign_first P f (x # xs) = (if P x then f x # xs else x # assign_first P f xs)"

text \<open>GET /api/notifications\<close>

definition get_notifications :: "prim \<Rightarrow> state \<Rightarrow> response" where
  "get_notifications userId s =
     (if \<not> ptruthy userId then missing_user_id
      else (200, DataList (user_list s userId)))"

text \<open>PUT /api/notifications/:id/read; \<open>new_date\<close> is the clock reading of \<open>new Date()\<close>.\<close>

definition put_read :: "string \<Rightarrow> prim \<Rightarrow> int \<Rightarrow> state \<Rightarrow> response \<times> state" where
  "put_read ident userId new_date s =
     (if \<not> ptruthy userId then (missing_user_id, s)
      else
        let userNotifications = user_list s userId
        in case find (\<lambda>n. n_id n = ident) userNotifications of
             None \<Rightarrow> (not_found, s)
           | Some notification \<Rightarrow>
               ((200, DataOne (notification\<lparr>read_at := Some new_date\<rparr>)),
                s\<lparr>notifications := (notifications s)(userId \<mapsto>
                     assign_first (\<lambda>n. n_id n = ident) (\<lambda>n. n\<lparr>read_at := Some new_date\<rparr>)
                       userNotifications)\<rparr>))"

text \<open>DELETE /api/notifications/:id\<close>

definition delete_notification :: "string \<Rightarrow> prim \<Rightarrow> state \<Rightarrow> response \<times> state" where
  "delete_notification ident userId s =
     (if \<not> ptruthy userId then (missing_user_id, s)
      else
        case notifications s userId of
          None \<Rightarrow> (not_found, s)
        | Some userNotifications \<Rightarrow>
            (case findIndex (\<lambda>n. n_id n = ident) userNotifications of
               None \<Rightarrow> (not_found, s)
             | Some index \<Rightarrow>
                 ((200, Message ''Notification deleted''),
                  s\<lparr>notifications := (notifications s)(userId \<mapsto>
                       splice1 index userNotifications)\<rparr>)))"

text \<open>GET /api/notifications/unread/count; a \<open>Date\<close> is truthy, \<open>null\<close> is not.\<close>

definition get_unread_count :: "prim \<Rightarrow> state \<Rightarrow> response" where
  "get_unread_count userId s =
     (if \<not> ptruthy userId then missing_user_id
      else (200, DataCount (length (filter (\<lambda>n. read_at n = None) (user_list s userId)))))"

section \<open>Runs of the store\<close>

text \<open>The store at startup: \<open>new Map()\<close>, and no mail sent yet.\<close>

definition init_state :: state where
  "init_state = \<lparr>notifications = Map.empty, sent = []\<rparr>"

text \<open>A sequence of \<open>storeNotification\<close> calls, each with its two clock readings.\<close>

fun store_all :: "(prim \<times> draft \<times> int \<times> int) list \<Rightarrow> state \<Rightarrow> state" where
  "store_all [] s = s"
| "store_all ((userId, d, date_now, new_date) # calls) s =
     store_all calls (storeNotification userId d date_now new_date s)"

text \<open>
  The three operations that touch the store: the append of the handlers and the two
  mutating routes. A run applies a sequence of them in order.
\<close>

datatype store_op =
    Append prim draft int int
  | MarkRead string prim int
  | Delete string prim

fun apply_op :: "store_op \<Rightarrow> state \<Rightarrow> state" where
  "apply_op (Append userId d date_now new_date) s = storeNotification userId d date_now new_date s"
| "apply_op (MarkRead ident userId new_date) s = snd (put_read ident userId new_date s)"
| "apply_op (Delete ident userId) s = snd (delete_notification ident userId s)"

fun run :: "store_op list \<Rightarrow> state \<Rightarrow> state" where
  "run [] s = s"
| "run (op # ops) s = run ops (apply_op op s)"

fun is_mark_read :: "store_op \<Rightarrow> bool" where
  "is_mark_read (MarkRead ident userId new_date) = True"
| "is_mark_read op = False"

text \<open>
  Following one record through a run. \<open>track op s v k\<close> is the position, after \<open>op\<close>,
  of the record that is at position \<open>k\<close> of the list of \<open>v\<close> in \<open>s\<close>, and \<open>None\<close> when
  \<open>op\<close> removes it. Only a \<open>splice\<close> moves records: those behind the removed one
  move down by one.
\<close>

fun track :: "store_op \<Rightarrow> state \<Rightarrow> prim \<Rightarrow> nat \<Rightarrow> nat option" where
  "track (Delete ident userId) s v k =
     (if v = userId \<and> ptruthy userId
      then (case findIndex (\<lambda>n. n_id n = ident) (user_list s userId) of
              None \<Rightarrow> Some k
            | Some index \<Rightarrow>
                if k < index then Some k else if k = index then None else Some (k - 1))
      else Some k)"
| "track op s v k = Some k"

fun track_run :: "store_op list \<Rightarrow> state \<Rightarrow> prim \<Rightarrow> nat \<Rightarrow> nat option" where
  "track_run [] s v k = Some k"
| "track_run (op # ops) s v k =
     (case track op s v k of None \<Rightarrow> None | Some k' \<Rightarrow> track_run ops (apply_op op s) v k')"

text \<open>
  \<open>same_or_marked n n'\<close>: the record \<open>n'\<close> is \<open>n\<close>, or it is \<open>n\<close> with \<open>read_at\<close>
  set to a timestamp.
\<close>

definition same_or_marked :: "notification \<Rightarrow> notification \<Rightarrow> bool" where
  "same_or_marked n n' \<longleftrightarrow>
     n' = n \<or> (read_at n' \<noteq> None \<and> n' = n\<lparr>read_at := read_at n'\<rparr>)"

subsection \<open>Example data\<close>

text \<open>
  A stored notification with the given id, message and \<open>read_at\<close>, and a store that
  holds the given lists, one for each user named. They serve as concrete inputs.
\<close>

definition mk_note :: "string \<Rightarrow> string \<Rightarrow> int option \<Rightarrow> notification" where
  "mk_note ident msg r =
     \<lparr>n_id = ident, n_type = ''booking_confirmation'', n_category = ''booking_confirmation'',
      n_title = ''Booking Confirmed'', n_message = msg, n_metadata = [],
      read_at = r, created_at = 0\<rparr>"

definition store_of :: "(prim \<times> notification list) list \<Rightarrow> state" where
  "store_of kvs = \<lparr>notifications = map_of kvs, sent = []\<rparr>"

definition example_draft :: "string \<Rightarrow> draft" where
  "example_draft msg =
     \<lparr>d_type = ''booking_confirmation'', d_category = ''booking_confirmation'',
      d_title = ''Booking Confirmed'', d_message = msg, d_metadata = []\<rparr>"

text \<open>A user service that is down, and one that knows every user as Jane.\<close>

definition services_down :: services where
  "services_down =
     \<lparr>userServiceClient = (\<lambda>url. HttpError),
      trainingServiceClient = (\<lambda>url. HttpError),
      scheduleServiceClient = (\<lambda>url. HttpError)\<rparr>"

definition services_user_only :: services where
  "services_user_only =
     \<lparr>userServiceClient =
        (\<lambda>url. HttpOk (Obj [(''data'', Obj [(''first_name'', Prim (JStr ''Jane'')),
                                            (''email'', Prim (JStr ''jane@example.com''))])])),
      trainingServiceClient = (\<lambda>url. HttpError),
      scheduleServiceClient = (\<lambda>url. HttpError)\<rparr>"

section \<open>Auxiliary facts\<close>

subsection \<open>Lists\<close>

lemma first_match_split:
  "\<exists>x \<in> set xs. P x \<Longrightarrow>
     \<exists>pre x post. xs = pre @ x # post \<and> P x \<and> (\<forall>y \<in> set pre. \<not> P y)"
  by (metis split_list_first_prop)

lemma find_first:
  "P x \<Longrightarrow> \<forall>y \<in> set pre. \<not> P y \<Longrightarrow> find P (pre @ x # post) = Some x"
  by (induction pre) auto

lemma assign_first_first:
  "P x \<Longrightarrow> \<forall>y \<in> set pre. \<not> P y \<Longrightarrow>
     assign_first P f (pre @ x # post) = pre @ f x # post"
  by (induction pre) auto

lemma assign_first_none: "\<forall>y \<in> set xs. \<not> P y \<Longrightarrow> assign_first P f xs = xs"
  by (induction xs) auto

lemma length_assign_first: "length (assign_first P f xs) = length xs"
  by (induction xs) auto

lemma nth_assign_first:
  "k < length xs \<Longrightarrow>
     assign_first P f xs ! k = xs ! k \<or> assign_first P f xs ! k = f (xs ! k)"
proof (induction xs arbitrary: k)
  case Nil
  then show ?case by simp
next
  case (Cons x xs)
  then show ?case by (cases k) auto
qed

lemma findIndex_first:
  "P x \<Longrightarrow> \<forall>y \<in> set pre. \<not> P y \<Longrightarrow> findIndex P (pre @ x # post) = Some (length pre)"
  by (induction pre) auto

lemma findIndex_none: "\<forall>y \<in> set xs. \<not> P y \<Longrightarrow> findIndex P xs = None"
  by (induction xs) auto

lemma findIndex_less: "findIndex P xs = Some i \<Longrightarrow> i < length xs"
  by (induction xs arbitrary: i) (auto split: if_splits option.splits)

lemma splice1_first: "splice1 (length pre) (pre @ x # post) = pre @ post"
  by (simp add: splice1_def)

lemma distinct_map_inj:
  "distinct xs \<Longrightarrow> (\<And>a b. f a = f b \<Longrightarrow> a = b) \<Longrightarrow> distinct (map f xs)"
  by (simp add: distinct_map inj_on_def)

lemma length_filter_count_list:
  "length (filter (\<lambda>n. f n = c) xs) = count_list (map f xs) c"
  by (induction xs) auto

subsection \<open>String conversion\<close>

lemma tpl_primitive: "tpl (Prim p) \<noteq> None"
  by simp

lemma tpl_plain_object: "tpl (Obj [(''name'', Prim (JStr ''x''))]) = Some ''[object Object]''"
  by simp

lemma tpl_object_with_toString: "tpl (Obj [(''toString'', Prim (JNum 1))]) = None"
  by simp

lemma tpl_array: "tpl (Arr [Prim (JStr ''a''), Prim JNull, Arr [Prim (JBool True)]]) = Some ''a,,true''"
  by simp

lemma tpl_array_throws: "tpl (Arr [Prim (JStr ''a''), Obj [(''toString'', Prim JNull)]]) = None"
  by simp

subsection \<open>Decimal rendering is injective\<close>

lemma digit_char_code: "d < 10 \<Longrightarrow> (of_char (digit_char d) :: nat) = 48 + d"
proof -
  assume "d < 10"
  then have "d \<in> {0, 1, 2, 3, 4, 5, 6, 7, 8, 9}" by auto
  then show ?thesis by (auto simp: digit_char_def)
qed

lemma digit_char_inj:
  assumes "a < 10" "b < 10" "digit_char a = digit_char b"
  shows "a = b"
proof -
  have "(of_char (digit_char a) :: nat) = of_char (digit_char b)"
    by (simp only: assms(3))
  then have "48 + a = 48 + b"
    by (simp only: digit_char_code [OF assms(1)] digit_char_code [OF assms(2)])
  then show ?thesis by simp
qed

lemma digit_char_not_minus:
  assumes "d < 10"
  shows "digit_char d \<noteq> CHR ''-''"
proof
  assume "digit_char d = CHR ''-''"
  then have "(of_char (digit_char d) :: nat) = of_char (CHR ''-'')" by (simp only:)
  then have "48 + d = (45 :: nat)" by (simp add: digit_char_code [OF assms])
  then show False by simp
qed

lemma decimal_not_Nil: "decimal n \<noteq> []"
  by (subst decimal.simps) simp

lemma decimal_last: "last (decimal n) = digit_char (n mod 10)"
  by (subst decimal.simps) simp

lemma decimal_butlast: "butlast (decimal n) = (if n < 10 then [] else decimal (n div 10))"
  by (subst decimal.simps) simp

lemma decimal_inj: "decimal m = decimal n \<Longrightarrow> m = n"
proof (induction m arbitrary: n rule: decimal.induct)
  case (1 m)
  from "1.prems" have "last (decimal m) = last (decimal n)" by simp
  then have l: "digit_char (m mod 10) = digit_char (n mod 10)"
    by (simp only: decimal_last)
  then have md: "m mod 10 = n mod 10" by (intro digit_char_inj) simp_all
  from "1.prems" have b: "butlast (decimal m) = butlast (decimal n)" by simp
  show ?case
  proof (cases "m < 10")
    case True
    with b have "n < 10"
      using decimal_not_Nil [of "n div 10"] by (auto simp: decimal_butlast split: if_splits)
    with True md show ?thesis by simp
  next
    case False
    with b have n: "\<not> n < 10"
      using decimal_not_Nil [of "m div 10"] by (auto simp: decimal_butlast split: if_splits)
    with False b have "decimal (m div 10) = decimal (n div 10)" by (simp add: decimal_butlast)
    with "1.IH" False have "m div 10 = n div 10" by simp
    moreover have "m = 10 * (m div 10) + m mod 10" "n = 10 * (n div 10) + n mod 10"
      by simp_all
    ultimately show ?thesis using md by simp
  qed
qed

lemma decimal_hd_not_minus: "hd (decimal n) \<noteq> CHR ''-''"
proof (induction n rule: decimal.induct)
  case (1 n)
  show ?case
  proof (cases "n < 10")
    case True
    then show ?thesis by (subst decimal.simps) (simp add: digit_char_not_minus)
  next
    case False
    with 1 show ?thesis by (subst decimal.simps) (simp add: decimal_not_Nil)
  qed
qed

lemma num_toString_inj: "num_toString i = num_toString j \<Longrightarrow> i = j"
proof -
  assume a: "num_toString i = num_toString j"
  have neq: "CHR ''-'' # decimal m \<noteq> decimal n" for m n
  proof
    assume "CHR ''-'' # decimal m = decimal n"
    then have "hd (decimal n) = CHR ''-''" by (metis list.sel(1))
    then show False using decimal_hd_not_minus by simp
  qed
  show ?thesis
  proof (cases "i < 0"; cases "j < 0")
    assume "i < 0" "j < 0"
    with a have "nat (- i) = nat (- j)" by (simp add: num_toString_def decimal_inj)
    with \<open>i < 0\<close> \<open>j < 0\<close> show ?thesis by simp
  next
    assume "i < 0" "\<not> j < 0"
    with a neq show ?thesis by (simp add: num_toString_def)
  next
    assume "\<not> i < 0" "j < 0"
    with a neq [of "nat (- j)" "nat i"] show ?thesis by (simp add: num_toString_def)
  next
    assume "\<not> i < 0" "\<not> j < 0"
    with a have "nat i = nat j" by (simp add: num_toString_def decimal_inj)
    with \<open>\<not> i < 0\<close> \<open>\<not> j < 0\<close> show ?thesis by simp
  qed
qed

lemma decimal_small: "n < 10 \<Longrightarrow> decimal n = [digit_char n]"
  by (subst decimal.simps) simp

subsection \<open>The store operations on the list of one user\<close>

lemma user_list_init: "user_list init_state u = []"
  by (simp add: init_state_def user_list_def)

lemma user_list_store_of:
  "user_list (store_of kvs) v = (case map_of kvs v of None \<Rightarrow> [] | Some l \<Rightarrow> l)"
  by (simp add: store_of_def user_list_def)

lemma user_list_upd:
  "user_list (s\<lparr>notifications := (notifications s)(u \<mapsto> l)\<rparr>) v =
     (if v = u then l else user_list s v)"
  by (simp add: user_list_def)

lemma user_list_storeNotification:
  "user_list (storeNotification u d a b s) v =
     (if v = u then user_list s u @ [new_notification d a b] else user_list s v)"
  by (simp add: user_list_def storeNotification_def Let_def split: option.splits)

lemma sent_storeNotification: "sent (storeNotification u d a b s) = sent s"
  by (simp add: storeNotification_def Let_def)

lemma sendEmail_converts:
  "tpl t = Some r \<Longrightarrow>
     sendEmail t sub b s = Inr (s\<lparr>sent := sent s @ [\<lparr>e_to = t, e_subject = sub, e_body = b\<rparr>]\<rparr>)"
  by (simp add: sendEmail_def)

lemma user_list_sent_upd: "user_list (s\<lparr>sent := m\<rparr>) v = user_list s v"
  by (simp add: user_list_def)

lemma user_list_store_after_send:
  "user_list (storeNotification u d a b (s\<lparr>sent := m\<rparr>)) v =
     (if v = u then user_list s u @ [new_notification d a b] else user_list s v)"
  by (simp add: user_list_storeNotification user_list_sent_upd)

lemma user_list_store_all:
  "user_list (store_all calls s) u =
     user_list s u @
     map (\<lambda>(v, d, a, b). new_notification d a b) (filter (\<lambda>(v, d, a, b). v = u) calls)"
  by (induction calls s rule: store_all.induct) (simp_all add: user_list_storeNotification)

lemma put_read_first:
  assumes "ptruthy u" "user_list s u = pre @ n # post" "n_id n = i"
    "\<forall>m \<in> set pre. n_id m \<noteq> i"
  shows "put_read i u t s =
           ((200, DataOne (n\<lparr>read_at := Some t\<rparr>)),
            s\<lparr>notifications := (notifications s)(u \<mapsto> pre @ n\<lparr>read_at := Some t\<rparr> # post)\<rparr>)"
  using assms by (simp add: put_read_def Let_def find_first assign_first_first)

lemma delete_first:
  assumes "ptruthy u" "user_list s u = pre @ n # post" "n_id n = i"
    "\<forall>m \<in> set pre. n_id m \<noteq> i"
  shows "delete_notification i u s =
           ((200, Message ''Notification deleted''),
            s\<lparr>notifications := (notifications s)(u \<mapsto> pre @ post)\<rparr>)"
proof -
  from assms(2) have "notifications s u = Some (pre @ n # post)"
    by (simp add: user_list_def split: option.splits)
  with assms show ?thesis
    by (simp add: delete_notification_def findIndex_first splice1_first)
qed

lemma delete_absent:
  assumes "\<forall>n \<in> set (user_list s u). n_id n \<noteq> i"
  shows "snd (delete_notification i u s) = s"
    and "ptruthy u \<Longrightarrow> fst (delete_notification i u s) = not_found"
  using assms
  by (auto simp: delete_notification_def user_list_def findIndex_none split: option.splits)

lemma user_list_put_read:
  "user_list (snd (put_read i u t s)) v =
     (if v = u \<and> ptruthy u
      then assign_first (\<lambda>n. n_id n = i) (\<lambda>n. n\<lparr>read_at := Some t\<rparr>) (user_list s u)
      else user_list s v)"
  by (auto simp: put_read_def Let_def user_list_upd assign_first_none find_None_iff
        split: option.splits)

lemma user_list_delete:
  "user_list (snd (delete_notification i u s)) v =
     (if v = u \<and> ptruthy u
      then (case findIndex (\<lambda>n. n_id n = i) (user_list s u) of
              None \<Rightarrow> user_list s u
            | Some index \<Rightarrow> splice1 index (user_list s u))
      else user_list s v)"
  by (auto simp: delete_notification_def user_list_def split: option.splits)

subsection \<open>Following a record\<close>

lemma same_or_marked_refl: "same_or_marked n n"
  by (simp add: same_or_marked_def)

lemma same_or_marked_trans:
  "same_or_marked a b \<Longrightarrow> same_or_marked b c \<Longrightarrow> same_or_marked a c"
  by (auto simp: same_or_marked_def)

lemma same_or_marked_read: "same_or_marked n n' \<Longrightarrow> read_at n \<noteq> None \<Longrightarrow> read_at n' \<noteq> None"
  by (auto simp: same_or_marked_def)

lemma track_step:
  assumes "k < length (user_list s v)" "track op s v k = Some k'"
  shows "k' < length (user_list (apply_op op s) v) \<and>
         same_or_marked (user_list s v ! k) (user_list (apply_op op s) v ! k')"
proof (cases op)
  case (Append u d a b)
  with assms show ?thesis
    by (auto simp: user_list_storeNotification nth_append same_or_marked_refl)
next
  case (MarkRead i u t)
  with assms have k: "k' = k" by simp
  show ?thesis
  proof (cases "v = u \<and> ptruthy u")
    case True
    with assms(1)
      nth_assign_first [of k "user_list s u" "\<lambda>n. n_id n = i" "\<lambda>n. n\<lparr>read_at := Some t\<rparr>"]
    show ?thesis
      unfolding k MarkRead
      by (auto simp: user_list_put_read length_assign_first same_or_marked_def)
  next
    case False
    with assms(1) show ?thesis
      unfolding k MarkRead by (auto simp: user_list_put_read same_or_marked_refl)
  qed
next
  case (Delete i u)
  show ?thesis
  proof (cases "v = u \<and> ptruthy u")
    case False
    with assms show ?thesis
      unfolding Delete by (auto simp: user_list_delete same_or_marked_refl)
  next
    case True
    show ?thesis
    proof (cases "findIndex (\<lambda>n. n_id n = i) (user_list s u)")
      case None
      with True assms show ?thesis
        unfolding Delete by (auto simp: user_list_delete same_or_marked_refl)
    next
      case (Some index)
      then have "index < length (user_list s u)" by (rule findIndex_less)
      with True Some assms show ?thesis
        unfolding Delete
        by (auto simp: user_list_delete same_or_marked_refl splice1_def nth_append min_def
              split: if_splits)
    qed
  qed
qed

lemma track_step_unchanged:
  assumes "k < length (user_list s v)" "track op s v k = Some k'" "\<not> is_mark_read op"
  shows "user_list (apply_op op s) v ! k' = user_list s v ! k"
proof (cases op)
  case (Append u d a b)
  with assms show ?thesis
    by (auto simp: user_list_storeNotification nth_append)
next
  case (MarkRead i u t)
  with assms show ?thesis by simp
next
  case (Delete i u)
  show ?thesis
  proof (cases "v = u \<and> ptruthy u")
    case False
    with assms show ?thesis
      unfolding Delete by (auto simp: user_list_delete)
  next
    case True
    show ?thesis
    proof (cases "findIndex (\<lambda>n. n_id n = i) (user_list s u)")
      case None
      with True assms show ?thesis
        unfolding Delete by (auto simp: user_list_delete)
    next
      case (Some index)
      then have "index < length (user_list s u)" by (rule findIndex_less)
      with True Some assms show ?thesis
        unfolding Delete
        by (auto simp: user_list_delete splice1_def nth_append min_def split: if_splits)
    qed
  qed
qed

lemma track_run_unchanged:
  "k < length (user_list s v) \<Longrightarrow> track_run ops s v k = Some k' \<Longrightarrow>
     list_all (\<lambda>op. \<not> is_mark_read op) ops \<Longrightarrow>
     user_list (run ops s) v ! k' = user_list s v ! k"
proof (induction ops arbitrary: s k)
  case Nil
  then show ?case by simp
next
  case (Cons op ops)
  from Cons.prems(2) obtain j where j: "track op s v k = Some j"
    and r: "track_run ops (apply_op op s) v j = Some k'"
    by (auto split: option.splits)
  from Cons.prems(3) have m: "\<not> is_mark_read op" and ms: "list_all (\<lambda>op. \<not> is_mark_read op) ops"
    by simp_all
  from track_step [OF Cons.prems(1) j]
  have 1: "j < length (user_list (apply_op op s) v)" by simp
  from Cons.IH [OF 1 r ms] track_step_unchanged [OF Cons.prems(1) j m]
  show ?case by simp
qed

lemma track_run_sound:
  "k < length (user_list s v) \<Longrightarrow> track_run ops s v k = Some k' \<Longrightarrow>
     k' < length (user_list (run ops s) v) \<and>
     same_or_marked (user_list s v ! k) (user_list (run ops s) v ! k')"
proof (induction ops arbitrary: s k)
  case Nil
  then show ?case by (simp add: same_or_marked_refl)
next
  case (Cons op ops)
  from Cons.prems(2) obtain j where j: "track op s v k = Some j"
    and r: "track_run ops (apply_op op s) v j = Some k'"
    by (auto split: option.splits)
  from track_step [OF Cons.prems(1) j]
  have 1: "j < length (user_list (apply_op op s) v)"
    and 2: "same_or_marked (user_list s v ! k) (user_list (apply_op op s) v ! j)" by simp_all
  from Cons.IH [OF 1 r] 2 show ?case
    by (auto intro: same_or_marked_trans)
qed

section \<open>The claims\<close>

subsection \<open>C1: uniqueness of ids within a user's list\<close>

text \<open>
  C1, as stated, fails. Two \<open>storeNotification\<close> calls for the same user whose
  \<open>Date.now()\<close> readings are the same millisecond produce two entries with the same
  id: after them the ids of the list of user \<open>u1\<close> are not pairwise distinct.
\<close>

theorem id_uniqueness_counterexample:
  "\<not> distinct (map n_id (user_list
       (store_all
          [(JStr ''u1'', example_draft ''first'', 1700000000000, 1700000000000),
           (JStr ''u1'', example_draft ''second'', 1700000000000, 1700000000000)]
          init_state)
       (JStr ''u1'')))"
  by (simp add: user_list_storeNotification user_list_init new_notification_def)

text \<open>
  C1, amended: for every user, after any sequence of \<open>storeNotification\<close> calls on the
  empty store, the ids in that user's list are pairwise distinct, provided that the
  \<open>Date.now()\<close> readings of the calls made for that user are pairwise distinct.
\<close>

theorem ids_distinct_when_clock_distinct:
  assumes "distinct (map (\<lambda>(v, d, date_now, new_date). date_now)
                      (filter (\<lambda>(v, d, date_now, new_date). v = userId) calls))"
  shows "distinct (map n_id (user_list (store_all calls init_state) userId))"
proof -
  let ?ts = "map (\<lambda>(v, d, date_now, new_date). date_now)
               (filter (\<lambda>(v, d, date_now, new_date). v = userId) calls)"
  have eq: "map n_id (user_list (store_all calls init_state) userId) = map num_toString ?ts"
    by (simp add: user_list_store_all user_list_init new_notification_def
          case_prod_unfold comp_def)
  from assms have "distinct (map num_toString ?ts)"
    by (rule distinct_map_inj) (rule num_toString_inj)
  with eq show ?thesis by (simp only:)
qed

text \<open>
  Witness: three calls, two of them for user \<open>u1\<close> at the readings 1 and 3; the ids
  of the list of \<open>u1\<close> are \<open>1\<close> and \<open>3\<close>.
\<close>

theorem ids_distinct_when_clock_distinct_witness:
  "distinct (map (\<lambda>(v, d, date_now, new_date). date_now)
      (filter (\<lambda>(v, d, date_now, new_date). v = JStr ''u1'')
         [(JStr ''u1'', example_draft ''first'', 1 :: int, 1 :: int),
          (JStr ''u2'', example_draft ''other'', 1, 1),
          (JStr ''u1'', example_draft ''second'', 3, 3)])) \<and>
   distinct (map n_id (user_list
      (store_all
         [(JStr ''u1'', example_draft ''first'', 1, 1),
          (JStr ''u2'', example_draft ''other'', 1, 1),
          (JStr ''u1'', example_draft ''second'', 3, 3)]
         init_state)
      (JStr ''u1''))) \<and>
   map n_id (user_list
      (store_all
         [(JStr ''u1'', example_draft ''first'', 1, 1),
          (JStr ''u2'', example_draft ''other'', 1, 1),
          (JStr ''u1'', example_draft ''second'', 3, 3)]
         init_state)
      (JStr ''u1'')) = [''1'', ''3'']"
proof -
  have h: "distinct (map (\<lambda>(v, d, date_now, new_date). date_now)
      (filter (\<lambda>(v, d, date_now, new_date). v = JStr ''u1'')
         [(JStr ''u1'', example_draft ''first'', 1 :: int, 1 :: int),
          (JStr ''u2'', example_draft ''other'', 1, 1),
          (JStr ''u1'', example_draft ''second'', 3, 3)]))"
    by simp
  have v: "map n_id (user_list
      (store_all
         [(JStr ''u1'', example_draft ''first'', 1, 1),
          (JStr ''u2'', example_draft ''other'', 1, 1),
          (JStr ''u1'', example_draft ''second'', 3, 3)]
         init_state)
      (JStr ''u1'')) = [''1'', ''3'']"
    by (simp add: user_list_storeNotification user_list_init new_notification_def
          num_toString_def decimal_small digit_char_def)
  from h ids_distinct_when_clock_distinct [OF h] v show ?thesis by blast
qed

subsection \<open>C2: no effect when the user cannot be resolved\<close>

text \<open>
  C2: for each of the five handlers that resolve the user (booking.completed,
  program.assigned, program.completed, achievement.earned, milestone.reached), if
  \<open>getUserContact\<close> for the payload's \<open>client_id\<close> yields \<open>null\<close> (or any other
  falsy value), the handler returns and leaves the state as it was: no mail is passed
  to \<open>sendEmail\<close> and the notification list of every user is unchanged.
\<close>

theorem absent_user_no_effect:
  assumes "channel \<in> {''booking.completed'', ''program.assigned'', ''program.completed'',
                       ''achievement.earned'', ''milestone.reached''}"
    and "\<not> truthy (getUserContact svc (field data ''client_id''))"
  shows "dispatch channel data svc date_now new_date s = Inr s"
  using assms
  by (auto simp: dispatch_def handleBookingCompleted_def handleProgramAssigned_def
        handleProgramCompleted_def handleAchievementEarned_def handleMilestoneReached_def Let_def)

text \<open>
  Witness: an achievement.earned event for \<open>client-456\<close> while the user service is
  down; the lookup yields \<open>null\<close> and the store, which holds one notification of that
  user, is unchanged.
\<close>

theorem absent_user_no_effect_witness:
  "''achievement.earned'' \<in> {''booking.completed'', ''program.assigned'', ''program.completed'',
                       ''achievement.earned'', ''milestone.reached''} \<and>
   getUserContact services_down
     (field [(''achievement_id'', JStr ''achievement-123''), (''client_id'', JStr ''client-456''),
             (''title'', JStr ''5kg Lost!'')] ''client_id'') = Prim JNull \<and>
   dispatch ''achievement.earned''
     [(''achievement_id'', JStr ''achievement-123''), (''client_id'', JStr ''client-456''),
      (''title'', JStr ''5kg Lost!'')]
     services_down 7 7 (store_of [(JStr ''client-456'', [mk_note ''1'' ''m'' None])]) =
   Inr (store_of [(JStr ''client-456'', [mk_note ''1'' ''m'' None])])"
proof -
  have c: "''achievement.earned'' \<in> {''booking.completed'', ''program.assigned'',
             ''program.completed'', ''achievement.earned'', ''milestone.reached''}"
    by simp
  have n: "getUserContact services_down
     (field [(''achievement_id'', JStr ''achievement-123''), (''client_id'', JStr ''client-456''),
             (''title'', JStr ''5kg Lost!'')] ''client_id'') = Prim JNull"
    by (simp add: getUserContact_def services_down_def response_data_data_def)
  then have t: "\<not> truthy (getUserContact services_down
     (field [(''achievement_id'', JStr ''achievement-123''), (''client_id'', JStr ''client-456''),
             (''title'', JStr ''5kg Lost!'')] ''client_id''))"
    by simp
  from c n absent_user_no_effect [OF c t] show ?thesis by blast
qed

subsection \<open>C3: \<open>read_at\<close> is one-way\<close>

text \<open>
  C3, as stated, fails: \<open>read_at\<close> also changes from one timestamp to another. After
  an append and a mark-read at time 5 the record of user \<open>u1\<close> has \<open>read_at = 5\<close>; a
  second mark-read of the same record, at time 9, leaves it in place and overwrites
  \<open>read_at\<close> with 9.
\<close>

theorem read_at_overwritten_counterexample:
  "map read_at (user_list
      (run [Append (JStr ''u1'') (example_draft ''first'') 1 1,
            MarkRead ''1'' (JStr ''u1'') 5] init_state) (JStr ''u1'')) = [Some 5] \<and>
   track (MarkRead ''1'' (JStr ''u1'') 9)
      (run [Append (JStr ''u1'') (example_draft ''first'') 1 1,
            MarkRead ''1'' (JStr ''u1'') 5] init_state) (JStr ''u1'') 0 = Some 0 \<and>
   map read_at (user_list
      (run [Append (JStr ''u1'') (example_draft ''first'') 1 1,
            MarkRead ''1'' (JStr ''u1'') 5,
            MarkRead ''1'' (JStr ''u1'') 9] init_state) (JStr ''u1'')) = [Some 9]"
  by (simp add: user_list_put_read user_list_storeNotification user_list_init
        new_notification_def num_toString_def decimal_small digit_char_def)

text \<open>
  C3, amended: for every notification record and every sequence of store operations
  (append, markRead, delete), as long as the record is in its list no field of it other
  than \<open>read_at\<close> changes, and \<open>read_at\<close> is either unchanged or has been set to a
  timestamp; a \<open>read_at\<close> that is not \<open>null\<close> never becomes \<open>null\<close> again. Only
  markRead changes a record (a sequence without markRead leaves it as it is), and it
  also overwrites an earlier timestamp. A record is appended with \<open>read_at = null\<close>.
\<close>

theorem read_at_never_reset:
  assumes "k < length (user_list s v)"
    and "track_run ops s v k = Some k'"
  shows "k' < length (user_list (run ops s) v) \<and>
         same_or_marked (user_list s v ! k) (user_list (run ops s) v ! k') \<and>
         (read_at (user_list s v ! k) \<noteq> None \<longrightarrow>
            read_at (user_list (run ops s) v ! k') \<noteq> None) \<and>
         (list_all (\<lambda>op. \<not> is_mark_read op) ops \<longrightarrow>
            user_list (run ops s) v ! k' = user_list s v ! k) \<and>
         read_at (last (user_list (apply_op (Append u d date_now new_date) s) u)) = None"
proof -
  from track_run_sound [OF assms]
  have 1: "k' < length (user_list (run ops s) v)"
    and 2: "same_or_marked (user_list s v ! k) (user_list (run ops s) v ! k')"
    by simp_all
  have 3: "read_at (last (user_list (apply_op (Append u d date_now new_date) s) u)) = None"
    by (simp add: user_list_storeNotification new_notification_def)
  have 4: "list_all (\<lambda>op. \<not> is_mark_read op) ops \<longrightarrow>
             user_list (run ops s) v ! k' = user_list s v ! k"
    using track_run_unchanged [OF assms] by blast
  from 1 2 3 4 same_or_marked_read [OF 2] show ?thesis by blast
qed

text \<open>
  Witness: the list of \<open>u1\<close> holds an unread record \<open>1\<close> and a record \<open>2\<close> read at
  time 5. Record \<open>1\<close> is deleted, record \<open>2\<close> is marked read again at time 9, and a
  third record is appended: the record at position 1 ends at position 0, with
  \<open>read_at = 9\<close> and nothing else changed.
\<close>

theorem read_at_never_reset_witness:
  "1 < length (user_list
         (store_of [(JStr ''u1'', [mk_note ''1'' ''a'' None, mk_note ''2'' ''b'' (Some 5)])])
         (JStr ''u1'')) \<and>
   track_run [Delete ''1'' (JStr ''u1''), MarkRead ''2'' (JStr ''u1'') 9,
              Append (JStr ''u1'') (example_draft ''c'') 3 3]
     (store_of [(JStr ''u1'', [mk_note ''1'' ''a'' None, mk_note ''2'' ''b'' (Some 5)])])
     (JStr ''u1'') 1 = Some 0 \<and>
   user_list
     (run [Delete ''1'' (JStr ''u1''), MarkRead ''2'' (JStr ''u1'') 9,
           Append (JStr ''u1'') (example_draft ''c'') 3 3]
        (store_of [(JStr ''u1'', [mk_note ''1'' ''a'' None, mk_note ''2'' ''b'' (Some 5)])]))
     (JStr ''u1'') ! 0 = mk_note ''2'' ''b'' (Some 9) \<and>
   same_or_marked (mk_note ''2'' ''b'' (Some 5)) (mk_note ''2'' ''b'' (Some 9))"
proof -
  let ?s = "store_of [(JStr ''u1'', [mk_note ''1'' ''a'' None, mk_note ''2'' ''b'' (Some 5)])]"
  let ?ops = "[Delete ''1'' (JStr ''u1''), MarkRead ''2'' (JStr ''u1'') 9,
               Append (JStr ''u1'') (example_draft ''c'') 3 3]"
  have h1: "1 < length (user_list ?s (JStr ''u1''))"
    by (simp add: user_list_store_of)
  have h2: "track_run ?ops ?s (JStr ''u1'') 1 = Some 0"
    by (simp add: user_list_store_of mk_note_def)
  have v0: "user_list ?s (JStr ''u1'') ! 1 = mk_note ''2'' ''b'' (Some 5)"
    by (simp add: user_list_store_of)
  have v1: "user_list (run ?ops ?s) (JStr ''u1'') ! 0 = mk_note ''2'' ''b'' (Some 9)"
    by (simp add: user_list_storeNotification user_list_put_read user_list_delete
          user_list_store_of mk_note_def splice1_def)
  from read_at_never_reset [OF h1 h2, of "JStr ''u1''" "example_draft ''c''" 3 3]
  have "same_or_marked (user_list ?s (JStr ''u1'') ! 1) (user_list (run ?ops ?s) (JStr ''u1'') ! 0)"
    by blast
  then have "same_or_marked (mk_note ''2'' ''b'' (Some 5)) (mk_note ''2'' ''b'' (Some 9))"
    by (simp only: v0 v1)
  with h1 h2 v1 show ?thesis by blast
qed

subsection \<open>C4: frame of mark-read\<close>

text \<open>
  C4: for every store, user and id present in that user's list, the mark-read route
  changes only \<open>read_at\<close> of the targeted record, the first one with that id: the
  user's list is the old one with that record's \<open>read_at\<close> replaced (by the current
  time; by nothing when the request carries no user id and is refused), every other
  field of the record and every sibling are as before, the lists of all other users are
  unchanged, and no mail is sent.
\<close>

theorem markRead_frame:
  assumes "\<exists>n \<in> set (user_list s userId). n_id n = ident"
  shows "\<exists>pre n post.
           user_list s userId = pre @ n # post \<and> n_id n = ident \<and>
           (\<forall>m \<in> set pre. n_id m \<noteq> ident) \<and>
           user_list (snd (put_read ident userId new_date s)) userId =
             pre @ n\<lparr>read_at := (if ptruthy userId then Some new_date else read_at n)\<rparr> # post \<and>
           (\<forall>v. v \<noteq> userId \<longrightarrow>
              notifications (snd (put_read ident userId new_date s)) v = notifications s v) \<and>
           sent (snd (put_read ident userId new_date s)) = sent s"
proof -
  from assms obtain pre n post where
    sp: "user_list s userId = pre @ n # post" "n_id n = ident" "\<forall>m \<in> set pre. n_id m \<noteq> ident"
    using first_match_split [of "user_list s userId" "\<lambda>n. n_id n = ident"] by blast
  show ?thesis
  proof (cases "ptruthy userId")
    case True
    with sp show ?thesis
      by (intro exI [of _ pre] exI [of _ n] exI [of _ post])
         (simp add: put_read_first [OF True sp] user_list_upd)
  next
    case False
    with sp show ?thesis
      by (intro exI [of _ pre] exI [of _ n] exI [of _ post]) (simp add: put_read_def)
  qed
qed

text \<open>
  Witness: user \<open>u1\<close> has the unread records \<open>1\<close>, \<open>2\<close>, \<open>3\<close> and user \<open>u2\<close> has one
  record with the id \<open>2\<close> as well. Marking \<open>2\<close> of \<open>u1\<close> read at time 9 changes
  \<open>read_at\<close> of the second record of \<open>u1\<close> and nothing else.
\<close>

theorem markRead_frame_witness:
  "(\<exists>n \<in> set (user_list
        (store_of [(JStr ''u1'', [mk_note ''1'' ''a'' None, mk_note ''2'' ''b'' None,
                                  mk_note ''3'' ''c'' None]),
                   (JStr ''u2'', [mk_note ''2'' ''d'' None])])
        (JStr ''u1'')). n_id n = ''2'') \<and>
   user_list (snd (put_read ''2'' (JStr ''u1'') 9
        (store_of [(JStr ''u1'', [mk_note ''1'' ''a'' None, mk_note ''2'' ''b'' None,
                                  mk_note ''3'' ''c'' None]),
                   (JStr ''u2'', [mk_note ''2'' ''d'' None])]))) (JStr ''u1'') =
     [mk_note ''1'' ''a'' None, mk_note ''2'' ''b'' (Some 9), mk_note ''3'' ''c'' None] \<and>
   user_list (snd (put_read ''2'' (JStr ''u1'') 9
        (store_of [(JStr ''u1'', [mk_note ''1'' ''a'' None, mk_note ''2'' ''b'' None,
                                  mk_note ''3'' ''c'' None]),
                   (JStr ''u2'', [mk_note ''2'' ''d'' None])]))) (JStr ''u2'') =
     [mk_note ''2'' ''d'' None]"
proof -
  let ?s = "store_of [(JStr ''u1'', [mk_note ''1'' ''a'' None, mk_note ''2'' ''b'' None,
                                     mk_note ''3'' ''c'' None]),
                      (JStr ''u2'', [mk_note ''2'' ''d'' None])]"
  have h: "\<exists>n \<in> set (user_list ?s (JStr ''u1'')). n_id n = ''2''"
    by (simp add: user_list_store_of mk_note_def)
  have v: "user_list (snd (put_read ''2'' (JStr ''u1'') 9 ?s)) (JStr ''u1'') =
             [mk_note ''1'' ''a'' None, mk_note ''2'' ''b'' (Some 9), mk_note ''3'' ''c'' None]"
    "user_list (snd (put_read ''2'' (JStr ''u1'') 9 ?s)) (JStr ''u2'') = [mk_note ''2'' ''d'' None]"
    by (simp_all add: user_list_put_read user_list_store_of mk_note_def)
  from h markRead_frame [OF h, of 9] v show ?thesis by blast
qed

subsection \<open>C5: delete\<close>

text \<open>
  C5: for a request that names a user, if some entry of the user's list has the id, the
  delete route answers with success and removes exactly one entry, the first one with
  that id: the new list is the old one without it, the other entries in their order,
  and the lists of the other users are unchanged. If no entry has the id, it answers
  404 NOT_FOUND and the state is unchanged.
\<close>

theorem delete_removes_first_match:
  assumes "ptruthy userId"
  shows "((\<exists>n \<in> set (user_list s userId). n_id n = ident) \<longrightarrow>
            (\<exists>pre n post.
               user_list s userId = pre @ n # post \<and> n_id n = ident \<and>
               (\<forall>m \<in> set pre. n_id m \<noteq> ident) \<and>
               fst (delete_notification ident userId s) = (200, Message ''Notification deleted'') \<and>
               user_list (snd (delete_notification ident userId s)) userId = pre @ post \<and>
               (\<forall>v. v \<noteq> userId \<longrightarrow>
                  notifications (snd (delete_notification ident userId s)) v =
                  notifications s v))) \<and>
         ((\<forall>n \<in> set (user_list s userId). n_id n \<noteq> ident) \<longrightarrow>
            delete_notification ident userId s =
              ((404, Err ''NOT_FOUND'' ''Notification not found''), s))"
proof (intro conjI impI)
  assume "\<exists>n \<in> set (user_list s userId). n_id n = ident"
  then obtain pre n post where
    sp: "user_list s userId = pre @ n # post" "n_id n = ident" "\<forall>m \<in> set pre. n_id m \<noteq> ident"
    using first_match_split [of "user_list s userId" "\<lambda>n. n_id n = ident"] by blast
  show "\<exists>pre n post.
          user_list s userId = pre @ n # post \<and> n_id n = ident \<and>
          (\<forall>m \<in> set pre. n_id m \<noteq> ident) \<and>
          fst (delete_notification ident userId s) = (200, Message ''Notification deleted'') \<and>
          user_list (snd (delete_notification ident userId s)) userId = pre @ post \<and>
          (\<forall>v. v \<noteq> userId \<longrightarrow>
             notifications (snd (delete_notification ident userId s)) v = notifications s v)"
    using sp
    by (intro exI [of _ pre] exI [of _ n] exI [of _ post])
       (simp add: delete_first [OF assms sp] user_list_upd)
next
  assume "\<forall>n \<in> set (user_list s userId). n_id n \<noteq> ident"
  from delete_absent [OF this] assms
  show "delete_notification ident userId s =
          ((404, Err ''NOT_FOUND'' ''Notification not found''), s)"
    by (simp add: prod_eq_iff not_found_def)
qed

text \<open>
  Witness: from the list \<open>[A, B, C]\<close> with the ids \<open>1\<close>, \<open>2\<close>, \<open>3\<close>, deleting \<open>2\<close>
  leaves \<open>[A, C]\<close> and deleting \<open>1\<close> leaves \<open>[B, C]\<close>; deleting the unknown id \<open>7\<close>
  is answered with 404 and leaves the list as it is.
\<close>

theorem delete_removes_first_match_witness:
  "ptruthy (JStr ''u1'') \<and>
   (\<exists>n \<in> set (user_list
        (store_of [(JStr ''u1'', [mk_note ''1'' ''A'' None, mk_note ''2'' ''B'' None,
                                  mk_note ''3'' ''C'' None])])
        (JStr ''u1'')). n_id n = ''2'') \<and>
   user_list (snd (delete_notification ''2'' (JStr ''u1'')
        (store_of [(JStr ''u1'', [mk_note ''1'' ''A'' None, mk_note ''2'' ''B'' None,
                                  mk_note ''3'' ''C'' None])]))) (JStr ''u1'') =
     [mk_note ''1'' ''A'' None, mk_note ''3'' ''C'' None] \<and>
   user_list (snd (delete_notification ''1'' (JStr ''u1'')
        (store_of [(JStr ''u1'', [mk_note ''1'' ''A'' None, mk_note ''2'' ''B'' None,
                                  mk_note ''3'' ''C'' None])]))) (JStr ''u1'') =
     [mk_note ''2'' ''B'' None, mk_note ''3'' ''C'' None] \<and>
   ''7'' \<notin> set (map n_id (user_list
        (store_of [(JStr ''u1'', [mk_note ''1'' ''A'' None, mk_note ''2'' ''B'' None,
                                  mk_note ''3'' ''C'' None])])
        (JStr ''u1''))) \<and>
   delete_notification ''7'' (JStr ''u1'')
        (store_of [(JStr ''u1'', [mk_note ''1'' ''A'' None, mk_note ''2'' ''B'' None,
                                  mk_note ''3'' ''C'' None])]) =
     ((404, Err ''NOT_FOUND'' ''Notification not found''),
      store_of [(JStr ''u1'', [mk_note ''1'' ''A'' None, mk_note ''2'' ''B'' None,
                               mk_note ''3'' ''C'' None])])"
proof -
  let ?s = "store_of [(JStr ''u1'', [mk_note ''1'' ''A'' None, mk_note ''2'' ''B'' None,
                                     mk_note ''3'' ''C'' None])]"
  have t: "ptruthy (JStr ''u1'')" by simp
  have h: "\<exists>n \<in> set (user_list ?s (JStr ''u1'')). n_id n = ''2''"
    by (simp add: user_list_store_of mk_note_def)
  have a: "\<forall>n \<in> set (user_list ?s (JStr ''u1'')). n_id n \<noteq> ''7''"
    by (simp add: user_list_store_of mk_note_def)
  have v: "user_list (snd (delete_notification ''2'' (JStr ''u1'') ?s)) (JStr ''u1'') =
             [mk_note ''1'' ''A'' None, mk_note ''3'' ''C'' None]"
    "user_list (snd (delete_notification ''1'' (JStr ''u1'') ?s)) (JStr ''u1'') =
             [mk_note ''2'' ''B'' None, mk_note ''3'' ''C'' None]"
    by (simp_all add: user_list_delete user_list_store_of mk_note_def splice1_def)
  from delete_removes_first_match [OF t, of ?s "''7''"] a
  have "delete_notification ''7'' (JStr ''u1'') ?s =
          ((404, Err ''NOT_FOUND'' ''Notification not found''), ?s)"
    by blast
  moreover from a have "''7'' \<notin> set (map n_id (user_list ?s (JStr ''u1'')))"
    by auto
  ultimately show ?thesis using t h v by blast
qed

subsection \<open>C6: listing returns the appends in order\<close>

text \<open>
  C6: for a request that names a user, after any sequence of \<open>storeNotification\<close>
  calls the list route returns, with status 200, what the user's list held before
  followed by one notification for each call made for that user, in the order of the
  calls and whatever their content: the notification has the type, category, title,
  message and metadata of the call's draft, the id and \<open>created_at\<close> of the call's
  clock readings, and \<open>read_at = null\<close>. From the empty store these are exactly the
  appended notifications. For a user with no entry in the map it returns the empty list.
\<close>

theorem list_returns_appends_in_order:
  assumes "ptruthy userId"
  shows "get_notifications userId (store_all calls s) =
           (200, DataList (user_list s userId @
              map (\<lambda>(v, d, date_now, new_date).
                     \<lparr>n_id = num_toString date_now, n_type = d_type d,
                      n_category = d_category d, n_title = d_title d,
                      n_message = d_message d, n_metadata = d_metadata d,
                      read_at = None, created_at = new_date\<rparr>)
                (filter (\<lambda>(v, d, date_now, new_date). v = userId) calls))) \<and>
         get_notifications userId (store_all calls init_state) =
           (200, DataList (
              map (\<lambda>(v, d, date_now, new_date).
                     \<lparr>n_id = num_toString date_now, n_type = d_type d,
                      n_category = d_category d, n_title = d_title d,
                      n_message = d_message d, n_metadata = d_metadata d,
                      read_at = None, created_at = new_date\<rparr>)
                (filter (\<lambda>(v, d, date_now, new_date). v = userId) calls))) \<and>
         (notifications s userId = None \<longrightarrow> get_notifications userId s = (200, DataList []))"
proof -
  have l: "user_list (store_all calls t) userId =
             user_list t userId @
             map (\<lambda>(v, d, date_now, new_date).
                    \<lparr>n_id = num_toString date_now, n_type = d_type d,
                     n_category = d_category d, n_title = d_title d,
                     n_message = d_message d, n_metadata = d_metadata d,
                     read_at = None, created_at = new_date\<rparr>)
               (filter (\<lambda>(v, d, date_now, new_date). v = userId) calls)" for t
    by (simp add: user_list_store_all new_notification_def)
  have 1: "get_notifications userId (store_all calls s) =
             (200, DataList (user_list (store_all calls s) userId))"
    and 2: "get_notifications userId (store_all calls init_state) =
             (200, DataList (user_list (store_all calls init_state) userId))"
    using assms by (simp_all add: get_notifications_def)
  have 3: "notifications s userId = None \<longrightarrow> get_notifications userId s = (200, DataList [])"
    using assms by (simp add: get_notifications_def user_list_def)
  from 1 2 3 show ?thesis
    by (simp only: l user_list_init append_Nil)
qed

text \<open>
  Witness: three appends on the empty store, an achievement and a booking cancellation
  for \<open>u1\<close> and between them a confirmation for \<open>u2\<close>. The list of \<open>u1\<close> is the
  achievement and the cancellation, in that order and with the fields of their drafts;
  the list of the unknown user \<open>u9\<close> is empty.
\<close>

theorem list_returns_appends_in_order_witness:
  "ptruthy (JStr ''u1'') \<and>
   get_notifications (JStr ''u1'')
     (store_all
        [(JStr ''u1'',
          \<lparr>d_type = ''achievement'', d_category = ''achievement'',
           d_title = ''Achievement Unlocked!'', d_message = ''first'',
           d_metadata = [(''achievement_id'', JStr ''a1'')]\<rparr>, 1, 2),
         (JStr ''u2'', example_draft ''other'', 3, 3),
         (JStr ''u1'',
          \<lparr>d_type = ''booking_cancellation'', d_category = ''booking_reminder'',
           d_title = ''Booking Cancelled'', d_message = ''second'',
           d_metadata = [(''booking_id'', JStr ''b1'')]\<rparr>, 4, 5)]
        init_state) =
     (200, DataList
        [\<lparr>n_id = ''1'', n_type = ''achievement'', n_category = ''achievement'',
          n_title = ''Achievement Unlocked!'', n_message = ''first'',
          n_metadata = [(''achievement_id'', JStr ''a1'')],
          read_at = None, created_at = 2\<rparr>,
         \<lparr>n_id = ''4'', n_type = ''booking_cancellation'', n_category = ''booking_reminder'',
          n_title = ''Booking Cancelled'', n_message = ''second'',
          n_metadata = [(''booking_id'', JStr ''b1'')],
          read_at = None, created_at = 5\<rparr>]) \<and>
   notifications init_state (JStr ''u9'') = None \<and>
   get_notifications (JStr ''u9'') init_state = (200, DataList [])"
proof -
  have t: "ptruthy (JStr ''u1'')" "ptruthy (JStr ''u9'')" by simp_all
  have n: "notifications init_state (JStr ''u9'') = None" by (simp add: init_state_def)
  have i: "num_toString 1 = ''1''" "num_toString 4 = ''4''"
    by (simp_all add: num_toString_def decimal_small digit_char_def)
  from list_returns_appends_in_order [OF t(1),
      of "[(JStr ''u1'',
          \<lparr>d_type = ''achievement'', d_category = ''achievement'',
           d_title = ''Achievement Unlocked!'', d_message = ''first'',
           d_metadata = [(''achievement_id'', JStr ''a1'')]\<rparr>, 1, 2),
         (JStr ''u2'', example_draft ''other'', 3, 3),
         (JStr ''u1'',
          \<lparr>d_type = ''booking_cancellation'', d_category = ''booking_reminder'',
           d_title = ''Booking Cancelled'', d_message = ''second'',
           d_metadata = [(''booking_id'', JStr ''b1'')]\<rparr>, 4, 5)]" init_state]
  have 1: "get_notifications (JStr ''u1'')
     (store_all
        [(JStr ''u1'',
          \<lparr>d_type = ''achievement'', d_category = ''achievement'',
           d_title = ''Achievement Unlocked!'', d_message = ''first'',
           d_metadata = [(''achievement_id'', JStr ''a1'')]\<rparr>, 1, 2),
         (JStr ''u2'', example_draft ''other'', 3, 3),
         (JStr ''u1'',
          \<lparr>d_type = ''booking_cancellation'', d_category = ''booking_reminder'',
           d_title = ''Booking Cancelled'', d_message = ''second'',
           d_metadata = [(''booking_id'', JStr ''b1'')]\<rparr>, 4, 5)]
        init_state) =
     (200, DataList
        [\<lparr>n_id = ''1'', n_type = ''achievement'', n_category = ''achievement'',
          n_title = ''Achievement Unlocked!'', n_message = ''first'',
          n_metadata = [(''achievement_id'', JStr ''a1'')],
          read_at = None, created_at = 2\<rparr>,
         \<lparr>n_id = ''4'', n_type = ''booking_cancellation'', n_category = ''booking_reminder'',
          n_title = ''Booking Cancelled'', n_message = ''second'',
          n_metadata = [(''booking_id'', JStr ''b1'')],
          read_at = None, created_at = 5\<rparr>])"
    by (simp add: i user_list_init)
  from list_returns_appends_in_order [OF t(2), of "[]" init_state] n
  have 2: "get_notifications (JStr ''u9'') init_state = (200, DataList [])"
    by blast
  from t n 1 2 show ?thesis by blast
qed

subsection \<open>C7: the unread count\<close>

text \<open>
  C7: for a request that names a user, the unread-count route returns, with status
  200, the number of entries of that user's list whose \<open>read_at\<close> is \<open>null\<close>; the count
  is 0 for a user without an entry in the map, for an empty list, and for a list all
  of whose entries are read.
\<close>

theorem unread_count_counts_null_read_at:
  assumes "ptruthy userId"
  shows "get_unread_count userId s =
           (200, DataCount (count_list (map read_at (user_list s userId)) None)) \<and>
         (notifications s userId = None \<longrightarrow> get_unread_count userId s = (200, DataCount 0)) \<and>
         (notifications s userId = Some [] \<longrightarrow> get_unread_count userId s = (200, DataCount 0)) \<and>
         ((\<forall>n \<in> set (user_list s userId). read_at n \<noteq> None) \<longrightarrow>
            get_unread_count userId s = (200, DataCount 0))"
  using assms
  by (auto simp: get_unread_count_def length_filter_count_list [symmetric] user_list_def)

text \<open>
  Witness: of the three entries of \<open>u1\<close> the second is read, so the count is 2; the
  unknown user \<open>u9\<close> has the count 0, and so has \<open>u2\<close>, whose only entry is read.
\<close>

theorem unread_count_counts_null_read_at_witness:
  "ptruthy (JStr ''u1'') \<and>
   get_unread_count (JStr ''u1'')
     (store_of [(JStr ''u1'', [mk_note ''1'' ''a'' None, mk_note ''2'' ''b'' (Some 5),
                               mk_note ''3'' ''c'' None]),
                (JStr ''u2'', [mk_note ''4'' ''d'' (Some 6)])]) = (200, DataCount 2) \<and>
   get_unread_count (JStr ''u9'')
     (store_of [(JStr ''u1'', [mk_note ''1'' ''a'' None, mk_note ''2'' ''b'' (Some 5),
                               mk_note ''3'' ''c'' None]),
                (JStr ''u2'', [mk_note ''4'' ''d'' (Some 6)])]) = (200, DataCount 0) \<and>
   get_unread_count (JStr ''u2'')
     (store_of [(JStr ''u1'', [mk_note ''1'' ''a'' None, mk_note ''2'' ''b'' (Some 5),
                               mk_note ''3'' ''c'' None]),
                (JStr ''u2'', [mk_note ''4'' ''d'' (Some 6)])]) = (200, DataCount 0)"
proof -
  let ?s = "store_of [(JStr ''u1'', [mk_note ''1'' ''a'' None, mk_note ''2'' ''b'' (Some 5),
                                     mk_note ''3'' ''c'' None]),
                      (JStr ''u2'', [mk_note ''4'' ''d'' (Some 6)])]"
  have t: "ptruthy (JStr ''u1'')" "ptruthy (JStr ''u9'')" "ptruthy (JStr ''u2'')" by simp_all
  from unread_count_counts_null_read_at [OF t(1), of ?s]
  have 1: "get_unread_count (JStr ''u1'') ?s = (200, DataCount 2)"
    by (simp add: user_list_store_of mk_note_def)
  have "notifications ?s (JStr ''u9'') = None" by (simp add: store_of_def)
  with unread_count_counts_null_read_at [OF t(2), of ?s]
  have 2: "get_unread_count (JStr ''u9'') ?s = (200, DataCount 0)" by blast
  have "\<forall>n \<in> set (user_list ?s (JStr ''u2'')). read_at n \<noteq> None"
    by (simp add: user_list_store_of mk_note_def)
  with unread_count_counts_null_read_at [OF t(3), of ?s]
  have 3: "get_unread_count (JStr ''u2'') ?s = (200, DataCount 0)" by blast
  from t 1 2 3 show ?thesis by blast
qed

subsection \<open>C8: booking.cancelled without a reason\<close>

text \<open>
  C8: for every booking.cancelled payload without a \<open>reason\<close> field, the handler
  returns and has appended to the list of the payload's \<open>client_id\<close> one notification
  whose message is exactly \<open>Your booking has been cancelled. \<close>, trailing space
  included, and this message does not contain \<open>Reason:\<close>.
\<close>

theorem booking_cancelled_without_reason:
  assumes "map_of data ''reason'' = None"
  shows "\<exists>s' n. handleBookingCancelled data date_now new_date s = Inr s' \<and>
             user_list s' (field data ''client_id'') =
               user_list s (field data ''client_id'') @ [n] \<and>
             n_message n = ''Your booking has been cancelled. '' \<and>
             \<not> sublist ''Reason:'' (n_message n)"
  using assms
  by (simp add: handleBookingCancelled_def Let_def sendEmail_def user_list_store_after_send
        new_notification_def field_def p_or_def sublist_Cons_right prefix_Cons)

text \<open>
  Witness: the payload \<open>{booking_id: "b1", client_id: "u1"}\<close> on the empty store; the
  handler returns, and the list of \<open>u1\<close> then holds one notification with that
  message.
\<close>

theorem booking_cancelled_without_reason_witness:
  "map_of [(''booking_id'', JStr ''b1''), (''client_id'', JStr ''u1'')] ''reason'' = None \<and>
   map_sum id (\<lambda>s'. map n_message (user_list s' (JStr ''u1'')))
      (handleBookingCancelled [(''booking_id'', JStr ''b1''), (''client_id'', JStr ''u1'')]
         7 7 init_state) =
     Inr [''Your booking has been cancelled. '']"
proof -
  let ?data = "[(''booking_id'', JStr ''b1''), (''client_id'', JStr ''u1'')]"
  have h: "map_of ?data ''reason'' = None" by simp
  have c: "field ?data ''client_id'' = JStr ''u1''" by (simp add: field_def)
  from booking_cancelled_without_reason [OF h, of 7 7 init_state]
  have "map_sum id (\<lambda>s'. map n_message (user_list s' (JStr ''u1'')))
          (handleBookingCancelled ?data 7 7 init_state) =
        Inr [''Your booking has been cancelled. '']"
    unfolding c by (auto simp: user_list_init)
  with h show ?thesis by blast
qed

subsection \<open>C9: program.assigned without a program name\<close>

text \<open>
  C9: for every program.assigned event whose user lookup succeeds, with a contact whose
  \<open>first_name\<close> and \<open>email\<close> convert to strings (as every primitive value does),
  while the program lookup yields \<open>null\<close> (or any falsy value), or a program without a
  \<open>name\<close> (or with a falsy one), the handler returns and has appended a notification
  to the list of the payload's \<open>client_id\<close>; its message is
  \<open>Your trainer assigned you: Training Program\<close>, which contains the literal
  \<open>Training Program\<close>.
\<close>

theorem program_assigned_fallback_name:
  assumes "truthy (getUserContact svc (field data ''client_id''))"
    and "tpl (get_prop (getUserContact svc (field data ''client_id'')) ''first_name'') \<noteq> None"
    and "tpl (get_prop (getUserContact svc (field data ''client_id'')) ''email'') \<noteq> None"
    and "\<not> truthy (getProgramDetails svc (field data ''program_id'')) \<or>
         \<not> truthy (get_prop (getProgramDetails svc (field data ''program_id'')) ''name'')"
  shows "\<exists>s' n. handleProgramAssigned data svc date_now new_date s = Inr s' \<and>
             user_list s' (field data ''client_id'') =
               user_list s (field data ''client_id'') @ [n] \<and>
             n_message n = ''Your trainer assigned you: Training Program'' \<and>
             sublist ''Training Program'' (n_message n)"
proof -
  let ?client = "getUserContact svc (field data ''client_id'')"
  let ?d = "\<lparr>d_type = ''program_assigned'', d_category = ''program_assigned'',
             d_title = ''New Program Assigned'',
             d_message = ''Your trainer assigned you: '' @ ''Training Program'',
             d_metadata = [(''program_id'', field data ''program_id''),
                           (''workout_plan_id'', field data ''workout_plan_id''),
                           (''diet_plan_id'', field data ''diet_plan_id'')]\<rparr>"
  from assms(2) obtain first_name where f: "tpl (get_prop ?client ''first_name'') = Some first_name"
    by blast
  from assms(3) obtain rendered where e: "tpl (get_prop ?client ''email'') = Some rendered"
    by blast
  let ?s1 = "s\<lparr>sent := sent s @
       [\<lparr>e_to = get_prop ?client ''email'', e_subject = ''New Training Program Assigned'',
         e_body = ''Hi '' @ first_name @ '','' @ nl @ nl
                    @ ''Your trainer has assigned you a new program: '' @ ''Training Program''
                    @ nl @ nl
                    @ ''Log in to view your program details and get started!''\<rparr>]\<rparr>"
  have r: "handleProgramAssigned data svc date_now new_date s =
             Inr (storeNotification (field data ''client_id'') ?d date_now new_date ?s1)"
    using assms(1,4) f
    by (auto simp: handleProgramAssigned_def Let_def js_or_def sendEmail_converts [OF e])
  have l: "user_list (storeNotification (field data ''client_id'') ?d date_now new_date ?s1)
             (field data ''client_id'') =
           user_list s (field data ''client_id'') @ [new_notification ?d date_now new_date]"
    by (simp add: user_list_store_after_send)
  have m: "n_message (new_notification ?d date_now new_date) =
             ''Your trainer assigned you: '' @ ''Training Program''"
    by (simp add: new_notification_def)
  have sub: "sublist ''Training Program'' (''Your trainer assigned you: '' @ ''Training Program'')"
    by (rule sublist_append_leftI)
  from r l m sub show ?thesis
    by (intro exI [of _ "storeNotification (field data ''client_id'') ?d date_now new_date ?s1"]
          exI [of _ "new_notification ?d date_now new_date"]) simp
qed

text \<open>
  Witness: the user service answers with Jane's contact, the training service is down.
  The program lookup yields \<open>null\<close>, the handler returns, and the list of
  \<open>client-456\<close> receives the notification with the fallback name.
\<close>

theorem program_assigned_fallback_name_witness:
  "truthy (getUserContact services_user_only
      (field [(''program_id'', JStr ''program-123''), (''client_id'', JStr ''client-456'')]
         ''client_id'')) \<and>
   tpl (get_prop (getUserContact services_user_only
      (field [(''program_id'', JStr ''program-123''), (''client_id'', JStr ''client-456'')]
         ''client_id'')) ''first_name'') = Some ''Jane'' \<and>
   tpl (get_prop (getUserContact services_user_only
      (field [(''program_id'', JStr ''program-123''), (''client_id'', JStr ''client-456'')]
         ''client_id'')) ''email'') = Some ''jane@example.com'' \<and>
   getProgramDetails services_user_only
      (field [(''program_id'', JStr ''program-123''), (''client_id'', JStr ''client-456'')]
         ''program_id'') = Prim JNull \<and>
   map_sum id (\<lambda>s'. map n_message (user_list s' (JStr ''client-456'')))
      (handleProgramAssigned
         [(''program_id'', JStr ''program-123''), (''client_id'', JStr ''client-456'')]
         services_user_only 7 7 init_state) =
     Inr [''Your trainer assigned you: Training Program'']"
proof -
  let ?data = "[(''program_id'', JStr ''program-123''), (''client_id'', JStr ''client-456'')]"
  let ?client = "getUserContact services_user_only (field ?data ''client_id'')"
  have u: "truthy ?client"
    by (simp add: getUserContact_def services_user_only_def response_data_data_def)
  have f: "tpl (get_prop ?client ''first_name'') = Some ''Jane''"
    by (simp add: getUserContact_def services_user_only_def response_data_data_def)
  have e: "tpl (get_prop ?client ''email'') = Some ''jane@example.com''"
    by (simp add: getUserContact_def services_user_only_def response_data_data_def)
  have p: "getProgramDetails services_user_only (field ?data ''program_id'') = Prim JNull"
    by (simp add: getProgramDetails_def services_user_only_def response_data_data_def)
  from f have f': "tpl (get_prop ?client ''first_name'') \<noteq> None" by simp
  from e have e': "tpl (get_prop ?client ''email'') \<noteq> None" by simp
  from p have h: "\<not> truthy (getProgramDetails services_user_only (field ?data ''program_id'')) \<or>
      \<not> truthy (get_prop (getProgramDetails services_user_only (field ?data ''program_id''))
                  ''name'')"
    by simp
  have c: "field ?data ''client_id'' = JStr ''client-456''" by (simp add: field_def)
  from program_assigned_fallback_name [OF u f' e' h, of 7 7 init_state]
  have "map_sum id (\<lambda>s'. map n_message (user_list s' (JStr ''client-456'')))
          (handleProgramAssigned ?data services_user_only 7 7 init_state) =
        Inr [''Your trainer assigned you: Training Program'']"
    unfolding c by (auto simp: user_list_init)
  with u f e p show ?thesis by blast
qed

subsection \<open>C10: duplicate ids\<close>

text \<open>
  C10: when a user's list holds two or more entries with the same id, mark-read and
  delete act on the first of them only. With the list split at the first entry \<open>n\<close>
  that has the id, and a later entry with the same id in the rest \<open>post\<close>, mark-read
  sets \<open>read_at\<close> of \<open>n\<close> and leaves \<open>post\<close> as it is, and delete removes \<open>n\<close> and
  leaves \<open>post\<close> as it is.
\<close>

theorem first_match_only:
  assumes "ptruthy userId"
    and "user_list s userId = pre @ n # post"
    and "n_id n = ident"
    and "\<forall>m \<in> set pre. n_id m \<noteq> ident"
    and "\<exists>m \<in> set post. n_id m = ident"
  shows "user_list (snd (put_read ident userId new_date s)) userId =
           pre @ n\<lparr>read_at := Some new_date\<rparr> # post \<and>
         user_list (snd (delete_notification ident userId s)) userId = pre @ post"
  using assms by (simp add: put_read_first delete_first user_list_upd)

text \<open>
  Witness: the list of \<open>u1\<close> holds the ids \<open>1\<close>, \<open>2\<close>, \<open>2\<close>. Marking \<open>2\<close> read at
  time 9 changes the second entry and not the third; deleting \<open>2\<close> removes the second
  entry and keeps the third.
\<close>

theorem first_match_only_witness:
  "ptruthy (JStr ''u1'') \<and>
   user_list (store_of [(JStr ''u1'', [mk_note ''1'' ''a'' None, mk_note ''2'' ''b'' None,
                                       mk_note ''2'' ''c'' None])]) (JStr ''u1'') =
     [mk_note ''1'' ''a'' None] @ mk_note ''2'' ''b'' None # [mk_note ''2'' ''c'' None] \<and>
   user_list (snd (put_read ''2'' (JStr ''u1'') 9
      (store_of [(JStr ''u1'', [mk_note ''1'' ''a'' None, mk_note ''2'' ''b'' None,
                                mk_note ''2'' ''c'' None])]))) (JStr ''u1'') =
     [mk_note ''1'' ''a'' None, mk_note ''2'' ''b'' (Some 9), mk_note ''2'' ''c'' None] \<and>
   user_list (snd (delete_notification ''2'' (JStr ''u1'')
      (store_of [(JStr ''u1'', [mk_note ''1'' ''a'' None, mk_note ''2'' ''b'' None,
                                mk_note ''2'' ''c'' None])]))) (JStr ''u1'') =
     [mk_note ''1'' ''a'' None, mk_note ''2'' ''c'' None]"
proof -
  let ?s = "store_of [(JStr ''u1'', [mk_note ''1'' ''a'' None, mk_note ''2'' ''b'' None,
                                     mk_note ''2'' ''c'' None])]"
  have t: "ptruthy (JStr ''u1'')" by simp
  have l: "user_list ?s (JStr ''u1'') =
             [mk_note ''1'' ''a'' None] @ mk_note ''2'' ''b'' None # [mk_note ''2'' ''c'' None]"
    by (simp add: user_list_store_of)
  have i: "n_id (mk_note ''2'' ''b'' None) = ''2''" by (simp add: mk_note_def)
  have p: "\<forall>m \<in> set [mk_note ''1'' ''a'' None]. n_id m \<noteq> ''2''" by (simp add: mk_note_def)
  have d: "\<exists>m \<in> set [mk_note ''2'' ''c'' None]. n_id m = ''2''" by (simp add: mk_note_def)
  have r: "(mk_note ''2'' ''b'' None)\<lparr>read_at := Some 9\<rparr> = mk_note ''2'' ''b'' (Some 9)"
    by (simp add: mk_note_def)
  from first_match_only [OF t l i p d, of 9] r
  have "user_list (snd (put_read ''2'' (JStr ''u1'') 9 ?s)) (JStr ''u1'') =
          [mk_note ''1'' ''a'' None, mk_note ''2'' ''b'' (Some 9), mk_note ''2'' ''c'' None]"
    and "user_list (snd (delete_notification ''2'' (JStr ''u1'') ?s)) (JStr ''u1'') =
          [mk_note ''1'' ''a'' None, mk_note ''2'' ''c'' None]"
    by simp_all
  with t l show ?thesis by blast
qed

end
